theory Spec2Isabelle
  imports Complex_Main "HOL-Library.Multiset" "HOL-Library.Word"
begin

section \<open>The diffusion kernel of maldi-learn (src/maldi_learn/kernels.py)\<close>

text \<open>
  The numbers of the source are double-precision floats. They are modelled by real
  numbers: every theorem below is about the arithmetic the source writes down, not about
  its rounding, overflow, infinities or NaN. In particular the quotient by
  \<open>8 * sigma\<close> is only the source's quotient when \<open>sigma \<noteq> 0\<close> (numpy yields
  an infinity or NaN there, HOL yields 0), so the theorems about values assume
  \<open>0 < sigma\<close>, as the specification does.

  The source never converts a spectrum: \<open>np.outer\<close> multiplies the intensities in the
  element type (dtype) of the arrays it is given. Two element types are modelled, the two
  that numpy gives to Python numbers: \<open>float64\<close>, by real numbers as said above, and
  \<open>int64\<close>, by 64-bit words read as signed integers, whose product wraps around. The
  functions of the source on \<open>float64\<close> spectra keep the source's names; the same
  functions on \<open>int64\<close> spectra carry the suffix \<open>_int64\<close>. Both spectra of one
  evaluation have the same element type.
\<close>

subsection \<open>Data\<close>

text \<open>
  A spectrum is a two-dimensional array with one row per peak; the source reads column 0
  (\<open>x[:, 0]\<close>, the position) and column 1 (\<open>x[:, 1]\<close>, the intensity) and nothing
  else. A row is modelled by the pair of these two entries, so an array with fewer than
  two columns, on which the slicing raises, is outside the type.
\<close>

type_synonym spectrum = "(real \<times> real) list"

type_synonym int64 = "64 word"

type_synonym spectrum_int64 = "(int64 \<times> int64) list"

type_synonym matrix = "real list list"

datatype error = ValueError string | KeyError string

text \<open>
  The entry of \<open>sys.modules\<close> that the constructor patches: only the attribute
  \<open>check_pairwise_arrays\<close> of the module matters, which is either the validation of
  the library or the constructor's local function \<open>passthrough\<close>.
\<close>

datatype checker = sklearn_check | passthrough

record pairwise_module =
  check_pairwise_arrays :: checker

type_synonym sys_modules = "string \<rightharpoonup> pairwise_module"

record DiffusionKernel =
  sigma :: real

text \<open>What \<open>__call__\<close> returns: an array, or \<open>None\<close> when the body ends without a return.\<close>

datatype retval = NoneVal | Matrix matrix

subsection \<open>The constructor\<close>

text \<open>
  \<open>__init__\<close> stores \<open>sigma\<close>, looks \<open>'sklearn.metrics.pairwise'\<close> up in
  \<open>sys.modules\<close> (a dictionary lookup, which raises KeyError on a missing key), replaces
  the module's \<open>check_pairwise_arrays\<close> and stores the module back.
\<close>

definition init :: "real \<Rightarrow> sys_modules \<Rightarrow> error + (DiffusionKernel \<times> sys_modules)" where
  "init sigma' modules =
     (case modules ''sklearn.metrics.pairwise'' of
        None \<Rightarrow> Inl (KeyError ''sklearn.metrics.pairwise'')
      | Some m \<Rightarrow>
          Inr (\<lparr>sigma = sigma'\<rparr>,
               modules(''sklearn.metrics.pairwise'' \<mapsto> m\<lparr>check_pairwise_arrays := passthrough\<rparr>)))"

subsection \<open>The array operations the source calls\<close>

text \<open>
  These are functions of numpy, scipy and scikit-learn, modelled by what their
  documentation says on the arguments the source passes.
\<close>

text \<open>\<open>v.reshape(-1, 1)\<close>: a vector as a one-column matrix.\<close>

definition reshape_column :: "'a list \<Rightarrow> 'a list list" where
  "reshape_column v = map (\<lambda>a. [a]) v"

text \<open>The squared Euclidean distance of two points.\<close>

definition sqeuclidean :: "real list \<Rightarrow> real list \<Rightarrow> real" where
  "sqeuclidean u v = sum_list (map (\<lambda>(a, b). (a - b)\<^sup>2) (zip u v))"

text \<open>\<open>pairwise_distances(A, B, metric='sqeuclidean')\<close>: entry \<open>[i, j]\<close> is the distance
  of row \<open>i\<close> of \<open>A\<close> and row \<open>j\<close> of \<open>B\<close>.\<close>

definition pairwise_distances :: "real list list \<Rightarrow> real list list \<Rightarrow> matrix" where
  "pairwise_distances A B = map (\<lambda>u. map (\<lambda>v. sqeuclidean u v) B) A"

text \<open>The largest finite double, \<open>np.finfo(np.float64).max\<close>.\<close>

definition float64_max :: real where
  "float64_max = (2 - 1 / 2 ^ 52) * 2 ^ 1023"

text \<open>
  \<open>np.outer(a, b)\<close>: entry \<open>[i, j]\<close> is \<open>a[i] * b[j]\<close>, multiplied in the element
  type of the two arrays and of that type. On \<open>int64\<close> arrays this is the product of
  64-bit words, which wraps around modulo \<open>2 ^ 64\<close>; on \<open>float64\<close> arrays it is the
  product of reals, which stands for the product of doubles only as long as this is
  finite (a product beyond \<open>float64_max\<close> is an infinity in the source).
\<close>

definition outer :: "'a::times list \<Rightarrow> 'a list \<Rightarrow> 'a list list" where
  "outer a b = map (\<lambda>u. map (\<lambda>v. u * v) b) a"

text \<open>
  The conversion of an \<open>int64\<close> array to \<open>float64\<close>, which numpy applies to the integer
  operand of an operation with a \<open>float64\<close> array and scipy applies to the points it
  measures distances of: every entry becomes the number it denotes as a signed integer.
\<close>

definition astype_float :: "int64 list list \<Rightarrow> matrix" where
  "astype_float A = map (map (\<lambda>v. real_of_int (sint v))) A"

text \<open>An operation applied to every entry of an array, and to the entries of two arrays
  of one shape pairwise (\<open>P * E\<close>, \<open>np.exp(A)\<close>, \<open>-A\<close>, \<open>A / c\<close>).\<close>

definition elementwise :: "(real \<Rightarrow> real) \<Rightarrow> matrix \<Rightarrow> matrix" where
  "elementwise f A = map (map f) A"

definition elementwise2 :: "(real \<Rightarrow> real \<Rightarrow> real) \<Rightarrow> matrix \<Rightarrow> matrix \<Rightarrow> matrix" where
  "elementwise2 f A B = map2 (map2 f) A B"

text \<open>\<open>np.sum(K)\<close>: the sum of all entries.\<close>

definition np_sum :: "matrix \<Rightarrow> real" where
  "np_sum K = sum_list (map sum_list K)"

text \<open>\<open>A.shape\<close> of a two-dimensional array.\<close>

definition shape :: "matrix \<Rightarrow> nat \<times> nat" where
  "shape A = (length A, case A of [] \<Rightarrow> 0 | r # _ \<Rightarrow> length r)"

text \<open>\<open>pairwise_kernels(X, Y, metric=f)\<close> with a callable metric: entry \<open>[i, j]\<close> is
  \<open>f(X[i], Y[j])\<close>; with \<open>Y\<close> omitted, \<open>Y\<close> is \<open>X\<close>.\<close>

definition pairwise_kernels :: "'a list \<Rightarrow> 'a list \<Rightarrow> ('a \<Rightarrow> 'a \<Rightarrow> real) \<Rightarrow> matrix" where
  "pairwise_kernels X Y metric = map (\<lambda>x. map (\<lambda>y. metric x y) Y) X"

subsection \<open>The two local functions of \<open>__call__\<close>\<close>

definition evaluate_kernel :: "DiffusionKernel \<Rightarrow> spectrum \<Rightarrow> spectrum \<Rightarrow> real" where
  "evaluate_kernel self x y =
     (let x_positions = reshape_column (map fst x);
          y_positions = reshape_column (map fst y);
          distances = pairwise_distances x_positions y_positions;
          x_peaks = map snd x;
          y_peaks = map snd y;
          P = outer x_peaks y_peaks;
          K = elementwise2 (*) P
                (elementwise exp
                   (elementwise (\<lambda>d. d / (8 * sigma self)) (elementwise uminus distances)));
          K' = np_sum K
      in - K')"

definition evaluate_gradient :: "DiffusionKernel \<Rightarrow> spectrum \<Rightarrow> spectrum \<Rightarrow> real" where
  "evaluate_gradient self x y =
     (let x_positions = reshape_column (map fst x);
          y_positions = reshape_column (map fst y);
          distances = pairwise_distances x_positions y_positions;
          x_peaks = map snd x;
          y_peaks = map snd y;
          P = outer x_peaks y_peaks;
          K = elementwise2 (*) P
                (elementwise exp
                   (elementwise (\<lambda>d. d / (8 * sigma self)) (elementwise uminus distances)));
          K_gradient = elementwise (\<lambda>g. g / (4 * (sigma self)\<^sup>2)) (elementwise2 (*) distances K)
      in - np_sum K_gradient)"

text \<open>
  The same two functions on \<open>int64\<close> spectra. \<open>pairwise_distances\<close> computes in
  doubles, so the positions are converted first; \<open>P\<close> is an \<open>int64\<close> array, converted
  when it is multiplied with the \<open>float64\<close> array of the exponentials.
\<close>

definition evaluate_kernel_int64 ::
  "DiffusionKernel \<Rightarrow> spectrum_int64 \<Rightarrow> spectrum_int64 \<Rightarrow> real" where
  "evaluate_kernel_int64 self x y =
     (let x_positions = reshape_column (map fst x);
          y_positions = reshape_column (map fst y);
          distances = pairwise_distances (astype_float x_positions) (astype_float y_positions);
          x_peaks = map snd x;
          y_peaks = map snd y;
          P = outer x_peaks y_peaks;
          K = elementwise2 (*) (astype_float P)
                (elementwise exp
                   (elementwise (\<lambda>d. d / (8 * sigma self)) (elementwise uminus distances)));
          K' = np_sum K
      in - K')"

definition evaluate_gradient_int64 ::
  "DiffusionKernel \<Rightarrow> spectrum_int64 \<Rightarrow> spectrum_int64 \<Rightarrow> real" where
  "evaluate_gradient_int64 self x y =
     (let x_positions = reshape_column (map fst x);
          y_positions = reshape_column (map fst y);
          distances = pairwise_distances (astype_float x_positions) (astype_float y_positions);
          x_peaks = map snd x;
          y_peaks = map snd y;
          P = outer x_peaks y_peaks;
          K = elementwise2 (*) (astype_float P)
                (elementwise exp
                   (elementwise (\<lambda>d. d / (8 * sigma self)) (elementwise uminus distances)));
          K_gradient = elementwise (\<lambda>g. g / (4 * (sigma self)\<^sup>2)) (elementwise2 (*) distances K)
      in - np_sum K_gradient)"

subsection \<open>\<open>__call__\<close>\<close>

text \<open>
  The result is the list of lines printed (each \<open>print\<close> of the source prints a shape,
  recorded as the pair it shows) and either the exception raised or the value returned.
  In the branch \<open>Y is None\<close> with \<open>eval_gradient\<close> the source computes \<open>K\<close> and
  \<open>K_gradient\<close>, prints the shape of \<open>K_gradient\<close> and reaches the end of the
  function body, which in Python returns \<open>None\<close>.
\<close>

definition call ::
  "DiffusionKernel \<Rightarrow> spectrum list \<Rightarrow> spectrum list option \<Rightarrow> bool
    \<Rightarrow> (nat \<times> nat) list \<times> (error + retval)" where
  "call self X Y eval_gradient =
     (case Y of
        None \<Rightarrow>
          if eval_gradient then
            (let K = pairwise_kernels X X (evaluate_kernel self);
                 K_gradient = pairwise_kernels X X (evaluate_gradient self)
             in ([shape K_gradient], Inr NoneVal))
          else ([], Inr (Matrix (pairwise_kernels X X (evaluate_kernel self))))
      | Some Y' \<Rightarrow>
          if eval_gradient then
            ([], Inl (ValueError ''Gradient can only be evaluated when Y is None.''))
          else ([], Inr (Matrix (pairwise_kernels X Y' (evaluate_kernel self)))))"

definition call_int64 ::
  "DiffusionKernel \<Rightarrow> spectrum_int64 list \<Rightarrow> spectrum_int64 list option \<Rightarrow> bool
    \<Rightarrow> (nat \<times> nat) list \<times> (error + retval)" where
  "call_int64 self X Y eval_gradient =
     (case Y of
        None \<Rightarrow>
          if eval_gradient then
            (let K = pairwise_kernels X X (evaluate_kernel_int64 self);
                 K_gradient = pairwise_kernels X X (evaluate_gradient_int64 self)
             in ([shape K_gradient], Inr NoneVal))
          else ([], Inr (Matrix (pairwise_kernels X X (evaluate_kernel_int64 self))))
      | Some Y' \<Rightarrow>
          if eval_gradient then
            ([], Inl (ValueError ''Gradient can only be evaluated when Y is None.''))
          else ([], Inr (Matrix (pairwise_kernels X Y' (evaluate_kernel_int64 self)))))"

subsection \<open>\<open>diag\<close>\<close>

text \<open>
  The loop \<open>for i, x in enumerate(X)\<close> over the array \<open>diag_values\<close>, which starts as
  \<open>np.zeros(len(X))\<close>; every index the loop writes is below \<open>len(X)\<close>.
\<close>

fun diag_loop :: "DiffusionKernel \<Rightarrow> (nat \<times> spectrum) list \<Rightarrow> real list \<Rightarrow> real list" where
  "diag_loop self [] diag_values = diag_values"
| "diag_loop self ((i, x) # rest) diag_values =
     (let x_positions = reshape_column (map fst x);
          distances = pairwise_distances x_positions x_positions;
          x_peaks = map snd x;
          P = outer x_peaks x_peaks;
          K = elementwise2 (*) P
                (elementwise exp
                   (elementwise (\<lambda>d. d / (8 * sigma self)) (elementwise uminus distances)))
      in diag_loop self rest (diag_values[i := - np_sum K]))"

definition diag :: "DiffusionKernel \<Rightarrow> spectrum list \<Rightarrow> real list" where
  "diag self X = diag_loop self (enumerate 0 X) (replicate (length X) 0)"

fun diag_loop_int64 ::
  "DiffusionKernel \<Rightarrow> (nat \<times> spectrum_int64) list \<Rightarrow> real list \<Rightarrow> real list" where
  "diag_loop_int64 self [] diag_values = diag_values"
| "diag_loop_int64 self ((i, x) # rest) diag_values =
     (let x_positions = reshape_column (map fst x);
          distances = pairwise_distances (astype_float x_positions) (astype_float x_positions);
          x_peaks = map snd x;
          P = outer x_peaks x_peaks;
          K = elementwise2 (*) (astype_float P)
                (elementwise exp
                   (elementwise (\<lambda>d. d / (8 * sigma self)) (elementwise uminus distances)))
      in diag_loop_int64 self rest (diag_values[i := - np_sum K]))"

definition diag_int64 :: "DiffusionKernel \<Rightarrow> spectrum_int64 list \<Rightarrow> real list" where
  "diag_int64 self X = diag_loop_int64 self (enumerate 0 X) (replicate (length X) 0)"

section \<open>Properties\<close>

subsection \<open>The gradient request\<close>

lemma call_gradient_returns_None:
  "snd (call self X None True) = Inr NoneVal"
  by (simp add: call_def Let_def)

text \<open>
  C1. In self-similarity mode with the gradient requested, \<open>__call__\<close> should return the
  pair of the kernel matrix and the gradient matrix. The source computes both, prints the
  shape of the second and returns nothing: on the collection of the one spectrum
  \<open>[(0, 1)]\<close> with \<open>sigma = 1\<close> the call prints \<open>(1, 1)\<close> and its value is
  \<open>None\<close>.
\<close>

theorem call_self_gradient_returns_None:
  "call \<lparr>sigma = 1\<rparr> [[(0, 1)]] None True = ([(1, 1)], Inr NoneVal)"
  by (simp add: call_def Let_def pairwise_kernels_def shape_def)

text \<open>
  C8. When a second collection is supplied and the gradient is requested, \<open>__call__\<close>
  raises the ValueError that names the precondition (the gradient is only evaluated when
  \<open>Y\<close> is \<open>None\<close>): no kernel is evaluated, nothing is printed and no matrix is
  returned, whatever the collections and the kernel are.
\<close>

theorem call_gradient_with_Y_raises:
  "call self X (Some Y) True =
     ([], Inl (ValueError ''Gradient can only be evaluated when Y is None.''))"
  by (simp add: call_def)

subsection \<open>Configuration\<close>

text \<open>
  C3, as the claim states it, fails: the constructor called with \<open>sigma = 0\<close> (with
  the library module loaded) raises nothing and returns an instance whose \<open>sigma\<close> is 0.
\<close>

theorem init_sigma_zero_accepted:
  "init 0 [''sklearn.metrics.pairwise'' \<mapsto> \<lparr>check_pairwise_arrays = sklearn_check\<rparr>]
     = Inr (\<lparr>sigma = 0\<rparr>,
            [''sklearn.metrics.pairwise'' \<mapsto> \<lparr>check_pairwise_arrays = passthrough\<rparr>])"
  by (simp add: init_def)

text \<open>
  C3, amended. The constructor does not validate \<open>sigma\<close>: whenever the library module
  is loaded, it returns, for every \<open>sigma\<close> (positive or not), an instance that stores
  this \<open>sigma\<close> unchanged, and the module with \<open>check_pairwise_arrays\<close> replaced by
  \<open>passthrough\<close>.
\<close>

theorem init_stores_any_sigma:
  assumes "modules ''sklearn.metrics.pairwise'' = Some m"
  shows "init s modules =
           Inr (\<lparr>sigma = s\<rparr>,
                modules(''sklearn.metrics.pairwise'' \<mapsto> m\<lparr>check_pairwise_arrays := passthrough\<rparr>))"
  using assms by (simp add: init_def)

theorem init_stores_any_sigma_witness:
  "[''sklearn.metrics.pairwise'' \<mapsto> \<lparr>check_pairwise_arrays = sklearn_check\<rparr>]
       ''sklearn.metrics.pairwise'' = Some \<lparr>check_pairwise_arrays = sklearn_check\<rparr>
   \<and> init (- 2) [''sklearn.metrics.pairwise'' \<mapsto> \<lparr>check_pairwise_arrays = sklearn_check\<rparr>]
       = Inr (\<lparr>sigma = - 2\<rparr>,
              [''sklearn.metrics.pairwise'' \<mapsto> \<lparr>check_pairwise_arrays = passthrough\<rparr>])"
  using init_stores_any_sigma
          [of "[''sklearn.metrics.pairwise'' \<mapsto> \<lparr>check_pairwise_arrays = sklearn_check\<rparr>]"
              "\<lparr>check_pairwise_arrays = sklearn_check\<rparr>" "- 2"]
  by simp

subsection \<open>The two local functions as sums over pairs of peaks\<close>

text \<open>
  The array pipeline of \<open>evaluate_kernel\<close> and \<open>evaluate_gradient\<close>, entry by entry:
  the arrays \<open>P\<close>, \<open>distances\<close> and \<open>K\<close> have one row per peak of \<open>x\<close> and one
  column per peak of \<open>y\<close>.
\<close>

lemma map2_same: "map2 f (map g xs) (map h xs) = map (\<lambda>x. f (g x) (h x)) xs"
  by (induction xs) simp_all

lemma kernel_matrix:
  "elementwise2 (*) (outer (map snd x) (map snd y))
     (elementwise exp (elementwise (\<lambda>d. d / c)
        (elementwise uminus
           (pairwise_distances (reshape_column (map fst x)) (reshape_column (map fst y))))))
   = map (\<lambda>p. map (\<lambda>q. snd p * snd q * exp (- (fst p - fst q)\<^sup>2 / c)) y) x"
  by (simp add: elementwise2_def elementwise_def outer_def pairwise_distances_def
      reshape_column_def sqeuclidean_def map2_same o_def)

lemma evaluate_kernel_sum_list:
  "evaluate_kernel self x y =
     - (\<Sum>p\<leftarrow>x. \<Sum>q\<leftarrow>y. snd p * snd q * exp (- (fst p - fst q)\<^sup>2 / (8 * sigma self)))"
  by (simp add: evaluate_kernel_def Let_def kernel_matrix np_sum_def o_def)

lemma gradient_matrix:
  "elementwise (\<lambda>g. g / c') (elementwise2 (*)
      (pairwise_distances (reshape_column (map fst x)) (reshape_column (map fst y)))
      (map (\<lambda>p. map (\<lambda>q. k p q) y) x))
   = map (\<lambda>p. map (\<lambda>q. (fst p - fst q)\<^sup>2 * k p q / c') y) x"
  by (simp add: elementwise2_def elementwise_def pairwise_distances_def
      reshape_column_def sqeuclidean_def map2_same o_def)

lemma evaluate_gradient_sum_list:
  "evaluate_gradient self x y =
     - (\<Sum>p\<leftarrow>x. \<Sum>q\<leftarrow>y. (fst p - fst q)\<^sup>2 *
           (snd p * snd q * exp (- (fst p - fst q)\<^sup>2 / (8 * sigma self)))
           / (4 * (sigma self)\<^sup>2))"
  by (simp add: evaluate_gradient_def Let_def kernel_matrix gradient_matrix np_sum_def o_def)


lemma sum_list_swap:
  "(\<Sum>p\<leftarrow>xs. \<Sum>q\<leftarrow>ys. (f p q :: real)) = (\<Sum>q\<leftarrow>ys. \<Sum>p\<leftarrow>xs. f p q)"
  by (induction xs) (simp_all add: sum_list_addf)

lemma sum_list_mset_cong:
  assumes "mset xs' = mset xs"
  shows "(\<Sum>p\<leftarrow>xs'. (f p :: real)) = (\<Sum>p\<leftarrow>xs. f p)"
proof -
  have "(\<Sum>p\<leftarrow>xs'. f p) = sum_mset (image_mset f (mset xs'))"
    by (simp flip: mset_map add: sum_mset_sum_list)
  also have "\<dots> = sum_mset (image_mset f (mset xs))"
    by (simp add: assms)
  also have "\<dots> = (\<Sum>p\<leftarrow>xs. f p)"
    by (simp flip: mset_map add: sum_mset_sum_list)
  finally show ?thesis .
qed

lemma sum_list_mset_cong2:
  assumes "mset xs' = mset xs" and "mset ys' = mset ys"
  shows "(\<Sum>p\<leftarrow>xs'. \<Sum>q\<leftarrow>ys'. (f p q :: real)) = (\<Sum>p\<leftarrow>xs. \<Sum>q\<leftarrow>ys. f p q)"
proof -
  have "(\<Sum>p\<leftarrow>xs'. \<Sum>q\<leftarrow>ys'. f p q) = (\<Sum>p\<leftarrow>xs'. \<Sum>q\<leftarrow>ys. f p q)"
    by (simp add: sum_list_mset_cong [OF assms(2)])
  also have "\<dots> = (\<Sum>p\<leftarrow>xs. \<Sum>q\<leftarrow>ys. f p q)"
    by (rule sum_list_mset_cong [OF assms(1)])
  finally show ?thesis .
qed

lemma evaluate_kernel_commute: "evaluate_kernel self x y = evaluate_kernel self y x"
proof -
  have "(\<Sum>p\<leftarrow>x. \<Sum>q\<leftarrow>y. snd p * snd q * exp (- (fst p - fst q)\<^sup>2 / (8 * sigma self)))
      = (\<Sum>q\<leftarrow>y. \<Sum>p\<leftarrow>x. snd p * snd q * exp (- (fst p - fst q)\<^sup>2 / (8 * sigma self)))"
    by (rule sum_list_swap)
  also have "\<dots> = (\<Sum>q\<leftarrow>y. \<Sum>p\<leftarrow>x. snd q * snd p * exp (- (fst q - fst p)\<^sup>2 / (8 * sigma self)))"
    by (simp add: mult.commute power2_commute)
  finally show ?thesis
    by (simp add: evaluate_kernel_sum_list)
qed

lemma pairwise_kernels_nth:
  "i < length X \<Longrightarrow> j < length Y \<Longrightarrow> pairwise_kernels X Y f ! i ! j = f (X ! i) (Y ! j)"
  by (simp add: pairwise_kernels_def)



text \<open>
  C7. For \<open>sigma > 0\<close>, the similarity and the gradient are both zero as soon as one of
  the two point sets is empty, whatever the other one is.
\<close>

theorem empty_spectrum_zero:
  assumes "0 < sigma self"
  shows "evaluate_kernel self [] y = 0 \<and> evaluate_gradient self [] y = 0 \<and>
         evaluate_kernel self x [] = 0 \<and> evaluate_gradient self x [] = 0"
  by (simp add: evaluate_kernel_sum_list evaluate_gradient_sum_list)

theorem empty_spectrum_zero_witness:
  "0 < sigma \<lparr>sigma = 3\<rparr> \<and>
   evaluate_kernel \<lparr>sigma = 3\<rparr> [] [(1, 2)] = 0 \<and> evaluate_gradient \<lparr>sigma = 3\<rparr> [] [(1, 2)] = 0 \<and>
   evaluate_kernel \<lparr>sigma = 3\<rparr> [(4, 5)] [] = 0 \<and> evaluate_gradient \<lparr>sigma = 3\<rparr> [(4, 5)] [] = 0"
  using empty_spectrum_zero [of "\<lparr>sigma = 3\<rparr>" "[(1, 2)]" "[(4, 5)]"]
  by simp

text \<open>
  C9. For \<open>sigma > 0\<close>, reordering the peaks inside \<open>x\<close> and inside \<open>y\<close> (lists
  with the same multiset of peaks) changes neither \<open>evaluate_kernel\<close> nor
  \<open>evaluate_gradient\<close>.
\<close>

theorem permutation_invariant:
  assumes "0 < sigma self" and "mset x' = mset x" and "mset y' = mset y"
  shows "evaluate_kernel self x' y' = evaluate_kernel self x y \<and>
         evaluate_gradient self x' y' = evaluate_gradient self x y"
  by (simp add: evaluate_kernel_sum_list evaluate_gradient_sum_list
      sum_list_mset_cong2 [OF assms(2) assms(3)])

theorem permutation_invariant_witness:
  "0 < sigma \<lparr>sigma = 1\<rparr> \<and>
   mset [(1, 2), (0::real, 1::real)] = mset [(0::real, 1::real), (1, 2)] \<and>
   mset [(5::real, 1::real), (3, 4), (2, 7)] = mset [(2::real, 7::real), (5, 1), (3, 4)] \<and>
   evaluate_kernel \<lparr>sigma = 1\<rparr> [(1, 2), (0, 1)] [(5, 1), (3, 4), (2, 7)] =
     evaluate_kernel \<lparr>sigma = 1\<rparr> [(0, 1), (1, 2)] [(2, 7), (5, 1), (3, 4)] \<and>
   evaluate_gradient \<lparr>sigma = 1\<rparr> [(1, 2), (0, 1)] [(5, 1), (3, 4), (2, 7)] =
     evaluate_gradient \<lparr>sigma = 1\<rparr> [(0, 1), (1, 2)] [(2, 7), (5, 1), (3, 4)]"
proof -
  have s: "0 < sigma \<lparr>sigma = 1\<rparr>"
    by simp
  have x: "mset [(1, 2), (0::real, 1::real)] = mset [(0::real, 1::real), (1, 2)]"
    by simp
  have y: "mset [(5::real, 1::real), (3, 4), (2, 7)] = mset [(2::real, 7::real), (5, 1), (3, 4)]"
    by simp
  show ?thesis
    using s x y permutation_invariant [OF s x y] by blast
qed

subsection \<open>The matrices\<close>

text \<open>
  C5. For \<open>sigma > 0\<close> and a collection \<open>C\<close>, the call in self-similarity mode
  returns a matrix whose entries \<open>[i][j]\<close> and \<open>[j][i]\<close> are equal for all indices
  \<open>i\<close>, \<open>j\<close> of the collection; and \<open>evaluate_kernel\<close> is symmetric in its two
  point sets.
\<close>

theorem kernel_matrix_symmetric:
  assumes "0 < sigma self" and "i < length C" and "j < length C"
  shows "(\<exists>M. call self C None False = ([], Inr (Matrix M)) \<and> M ! i ! j = M ! j ! i) \<and>
         evaluate_kernel self x y = evaluate_kernel self y x"
proof -
  have "pairwise_kernels C C (evaluate_kernel self) ! i ! j
      = pairwise_kernels C C (evaluate_kernel self) ! j ! i"
    using assms(2,3) by (simp add: pairwise_kernels_nth evaluate_kernel_commute [of self "C ! i"])
  then show ?thesis
    using evaluate_kernel_commute [of self x y] by (simp add: call_def)
qed

theorem kernel_matrix_symmetric_witness:
  "0 < sigma \<lparr>sigma = 1\<rparr> \<and> (0::nat) < length [[(0::real, 1::real)], [(1, 2), (3, 1)]] \<and>
   (1::nat) < length [[(0::real, 1::real)], [(1, 2), (3, 1)]] \<and>
   (\<exists>M. call \<lparr>sigma = 1\<rparr> [[(0, 1)], [(1, 2), (3, 1)]] None False = ([], Inr (Matrix M)) \<and>
        M ! 0 ! 1 = M ! 1 ! 0) \<and>
   evaluate_kernel \<lparr>sigma = 1\<rparr> [(0, 1)] [(1, 2), (3, 1)] =
     evaluate_kernel \<lparr>sigma = 1\<rparr> [(1, 2), (3, 1)] [(0, 1)]"
proof -
  have s: "0 < sigma \<lparr>sigma = 1\<rparr>"
    by simp
  have i: "(0::nat) < length [[(0::real, 1::real)], [(1, 2), (3, 1)]]"
    by simp
  have j: "(1::nat) < length [[(0::real, 1::real)], [(1, 2), (3, 1)]]"
    by simp
  show ?thesis
    using s i j kernel_matrix_symmetric [OF s i j, of "[(0, 1)]" "[(1, 2), (3, 1)]"] by blast
qed

text \<open>
  The loop of \<open>diag\<close>, started at index \<open>n\<close> on an array long enough, leaves the
  first \<open>n\<close> entries alone and writes the self-similarities behind them.
\<close>

lemma diag_loop_enumerate:
  assumes "length dv = n + length xs"
  shows "diag_loop self (enumerate n xs) dv = take n dv @ map (\<lambda>x. evaluate_kernel self x x) xs"
  using assms
proof (induction xs arbitrary: n dv)
  case Nil
  then show ?case by simp
next
  case (Cons x xs)
  let ?dv = "dv[n := evaluate_kernel self x x]"
  have len: "length ?dv = Suc n + length xs"
    using Cons.prems by simp
  have "diag_loop self (enumerate n (x # xs)) dv = diag_loop self (enumerate (Suc n) xs) ?dv"
    by (simp add: evaluate_kernel_def Let_def)
  also have "\<dots> = take (Suc n) ?dv @ map (\<lambda>x. evaluate_kernel self x x) xs"
    by (rule Cons.IH [OF len])
  also have "take (Suc n) ?dv = take n dv @ [evaluate_kernel self x x]"
    using Cons.prems by (simp add: take_Suc_conv_app_nth)
  finally show ?case by simp
qed

lemma diag_eq_map: "diag self X = map (\<lambda>x. evaluate_kernel self x x) X"
  by (simp add: diag_def diag_loop_enumerate)

text \<open>
  C6. For \<open>sigma > 0\<close>, \<open>diag\<close> returns one value per spectrum of the collection,
  its entry \<open>i\<close> is \<open>evaluate_kernel\<close> of spectrum \<open>i\<close> with itself, and this is
  the entry \<open>[i][i]\<close> of the matrix that the call in self-similarity mode returns.
\<close>

theorem diag_agrees_with_matrix:
  assumes "0 < sigma self" and "i < length C"
  shows "length (diag self C) = length C \<and>
         diag self C ! i = evaluate_kernel self (C ! i) (C ! i) \<and>
         (\<exists>M. call self C None False = ([], Inr (Matrix M)) \<and> diag self C ! i = M ! i ! i)"
  using assms(2) by (simp add: diag_eq_map call_def pairwise_kernels_nth)

theorem diag_agrees_with_matrix_witness:
  "0 < sigma \<lparr>sigma = 2\<rparr> \<and> (1::nat) < length [[(0::real, 1::real)], [(1, 2), (3, 1)]] \<and>
   length (diag \<lparr>sigma = 2\<rparr> [[(0, 1)], [(1, 2), (3, 1)]]) = length [[(0::real, 1::real)], [(1, 2), (3, 1)]] \<and>
   diag \<lparr>sigma = 2\<rparr> [[(0, 1)], [(1, 2), (3, 1)]] ! 1 =
     evaluate_kernel \<lparr>sigma = 2\<rparr> ([[(0, 1)], [(1, 2), (3, 1)]] ! 1) ([[(0, 1)], [(1, 2), (3, 1)]] ! 1) \<and>
   (\<exists>M. call \<lparr>sigma = 2\<rparr> [[(0, 1)], [(1, 2), (3, 1)]] None False = ([], Inr (Matrix M)) \<and>
        diag \<lparr>sigma = 2\<rparr> [[(0, 1)], [(1, 2), (3, 1)]] ! 1 = M ! 1 ! 1)"
proof -
  have s: "0 < sigma \<lparr>sigma = 2\<rparr>"
    by simp
  have i: "(1::nat) < length [[(0::real, 1::real)], [(1, 2), (3, 1)]]"
    by simp
  show ?thesis
    using s i diag_agrees_with_matrix [OF s i] by blast
qed

subsection \<open>Sign\<close>

lemma evaluate_kernel_nonpos:
  assumes "\<forall>p\<in>set x. 0 \<le> snd p" and "\<forall>q\<in>set y. 0 \<le> snd q"
  shows "evaluate_kernel self x y \<le> 0"
proof -
  have "0 \<le> (\<Sum>q\<leftarrow>y. snd p * snd q * exp (- (fst p - fst q)\<^sup>2 / (8 * sigma self)))"
    if "p \<in> set x" for p
    using that assms by (intro sum_list_nonneg) auto
  then have "0 \<le> (\<Sum>p\<leftarrow>x. \<Sum>q\<leftarrow>y. snd p * snd q * exp (- (fst p - fst q)\<^sup>2 / (8 * sigma self)))"
    by (intro sum_list_nonneg) auto
  then show ?thesis
    by (simp add: evaluate_kernel_sum_list)
qed

text \<open>
  The same pipeline on \<open>int64\<close> spectra, entry by entry: the intensity product is the
  product of words, read as a signed integer after it has wrapped around.
\<close>

lemma kernel_matrix_int64:
  "elementwise2 (*) (astype_float (outer (map snd x) (map snd y)))
     (elementwise exp (elementwise (\<lambda>d. d / c)
        (elementwise uminus
           (pairwise_distances (astype_float (reshape_column (map fst x)))
              (astype_float (reshape_column (map fst y)))))))
   = map (\<lambda>p. map (\<lambda>q. real_of_int (sint (snd p * snd q)) *
           exp (- (real_of_int (sint (fst p)) - real_of_int (sint (fst q)))\<^sup>2 / c)) y) x"
  by (simp add: elementwise2_def elementwise_def outer_def pairwise_distances_def astype_float_def
      reshape_column_def sqeuclidean_def map2_same o_def)

lemma evaluate_kernel_int64_sum_list:
  "evaluate_kernel_int64 self x y =
     - (\<Sum>p\<leftarrow>x. \<Sum>q\<leftarrow>y. real_of_int (sint (snd p * snd q)) *
           exp (- (real_of_int (sint (fst p)) - real_of_int (sint (fst q)))\<^sup>2 / (8 * sigma self)))"
  by (simp add: evaluate_kernel_int64_def Let_def kernel_matrix_int64 np_sum_def o_def)

text \<open>
  The product of two non-negative \<open>int64\<close> values is their product as integers as long
  as this is below \<open>2 ^ 63\<close>.
\<close>

lemma sint_mult_in_range:
  fixes a b :: int64
  assumes "0 \<le> sint a" and "0 \<le> sint b" and "sint a * sint b < 2 ^ 63"
  shows "sint (a * b) = sint a * sint b"
proof -
  have "sint (a * b) = signed_take_bit 63 (sint a * sint b)"
    by (simp add: sint_word_ariths)
  also have "\<dots> = sint a * sint b"
    using assms by (intro signed_take_bit_int_eq_self) (auto intro: order_trans [of _ 0])
  finally show ?thesis .
qed

lemma evaluate_kernel_int64_nonpos:
  assumes "\<forall>p\<in>set x. 0 \<le> sint (snd p)" and "\<forall>q\<in>set y. 0 \<le> sint (snd q)"
    and "\<forall>p\<in>set x. \<forall>q\<in>set y. sint (snd p) * sint (snd q) < 2 ^ 63"
  shows "evaluate_kernel_int64 self x y \<le> 0"
proof -
  have "0 \<le> sint (snd p * snd q)" if "p \<in> set x" and "q \<in> set y" for p q
    using that assms by (simp add: sint_mult_in_range)
  then have "0 \<le> real_of_int (sint (snd p * snd q)) *
           exp (- (real_of_int (sint (fst p)) - real_of_int (sint (fst q)))\<^sup>2 / (8 * sigma self))"
    if "p \<in> set x" and "q \<in> set y" for p q
    using that by (intro mult_nonneg_nonneg) (simp_all only: of_int_0_le_iff exp_ge_zero)
  then have "0 \<le> (\<Sum>q\<leftarrow>y. real_of_int (sint (snd p * snd q)) *
           exp (- (real_of_int (sint (fst p)) - real_of_int (sint (fst q)))\<^sup>2 / (8 * sigma self)))"
    if "p \<in> set x" for p
    using that by (intro sum_list_nonneg) auto
  then have "0 \<le> (\<Sum>p\<leftarrow>x. \<Sum>q\<leftarrow>y. real_of_int (sint (snd p * snd q)) *
           exp (- (real_of_int (sint (fst p)) - real_of_int (sint (fst q)))\<^sup>2 / (8 * sigma self)))"
    by (intro sum_list_nonneg) auto
  then show ?thesis
    by (simp add: evaluate_kernel_int64_sum_list)
qed

lemma diag_loop_int64_enumerate:
  assumes "length dv = n + length xs"
  shows "diag_loop_int64 self (enumerate n xs) dv
           = take n dv @ map (\<lambda>x. evaluate_kernel_int64 self x x) xs"
  using assms
proof (induction xs arbitrary: n dv)
  case Nil
  then show ?case by simp
next
  case (Cons x xs)
  let ?dv = "dv[n := evaluate_kernel_int64 self x x]"
  have len: "length ?dv = Suc n + length xs"
    using Cons.prems by simp
  have "diag_loop_int64 self (enumerate n (x # xs)) dv = diag_loop_int64 self (enumerate (Suc n) xs) ?dv"
    by (simp add: evaluate_kernel_int64_def Let_def)
  also have "\<dots> = take (Suc n) ?dv @ map (\<lambda>x. evaluate_kernel_int64 self x x) xs"
    by (rule Cons.IH [OF len])
  also have "take (Suc n) ?dv = take n dv @ [evaluate_kernel_int64 self x x]"
    using Cons.prems by (simp add: take_Suc_conv_app_nth)
  finally show ?case by simp
qed

lemma diag_int64_eq_map: "diag_int64 self X = map (\<lambda>x. evaluate_kernel_int64 self x x) X"
  by (simp add: diag_int64_def diag_loop_int64_enumerate)

text \<open>
  C10, as the claim states it, fails: the bound holds for every pair of point sets with
  non-negative intensities only if no product of intensities leaves the element type.
  On the \<open>int64\<close> spectrum with the single peak at position 0 of intensity
  \<open>4000000000\<close>, taken for \<open>x\<close> and for \<open>y\<close>, with \<open>sigma = 1\<close>, the product
  \<open>16 * 10 ^ 18\<close> wraps around to \<open>16 * 10 ^ 18 - 2 ^ 64\<close>, which is negative, and
  \<open>evaluate_kernel\<close> and \<open>diag\<close> return the positive number
  \<open>2 ^ 64 - 16 * 10 ^ 18 = 2446744073709551616\<close>.
\<close>

theorem int64_intensity_product_wraps:
  "0 < sigma \<lparr>sigma = 1\<rparr> \<and> 0 \<le> sint (4000000000 :: int64) \<and>
   evaluate_kernel_int64 \<lparr>sigma = 1\<rparr> [(0, 4000000000)] [(0, 4000000000)] = 2446744073709551616 \<and>
   \<not> evaluate_kernel_int64 \<lparr>sigma = 1\<rparr> [(0, 4000000000)] [(0, 4000000000)] \<le> 0 \<and>
   diag_int64 \<lparr>sigma = 1\<rparr> [[(0, 4000000000)]] = [2446744073709551616]"
  by (simp add: diag_int64_eq_map evaluate_kernel_int64_sum_list)

text \<open>
  C10, amended. Let \<open>sigma > 0\<close> with \<open>8 * sigma\<close> a finite double, and let all
  intensities be non-negative. If no product of two intensities that the source
  multiplies overflows the element type of the spectra (it is at most \<open>float64_max\<close>
  for \<open>float64\<close> spectra, below \<open>2 ^ 63\<close> for \<open>int64\<close> spectra), then
  \<open>evaluate_kernel\<close> is at most 0 on every pair of spectra that is evaluated, and so is
  every entry of the matrix returned in self-similarity mode, every entry of the matrix
  returned in cross mode and every element of \<open>diag\<close>.

  The two bounds by \<open>float64_max\<close> are not needed for the real numbers of the model.
  They keep the statement to the inputs on which the doubles of the source stay clear of
  \<open>inf * 0\<close> and \<open>inf / inf\<close>, which are NaN: with them every entry of \<open>P\<close> is
  finite and non-negative and every exponential lies between 0 and 1, so that rounding
  cannot change the sign of the sum.
\<close>

theorem nonpositive_kernel_without_overflow:
  assumes "0 < sigma self" and "8 * sigma self \<le> float64_max"
    and "\<forall>x\<in>set X \<union> set Y. \<forall>p\<in>set x. 0 \<le> snd p"
    and "\<forall>x\<in>set X. \<forall>y\<in>set X \<union> set Y. \<forall>p\<in>set x. \<forall>q\<in>set y.
           snd p * snd q \<le> float64_max"
    and "\<forall>x\<in>set Xi \<union> set Yi. \<forall>p\<in>set x. 0 \<le> sint (snd p)"
    and "\<forall>x\<in>set Xi. \<forall>y\<in>set Xi \<union> set Yi. \<forall>p\<in>set x. \<forall>q\<in>set y.
           sint (snd p) * sint (snd q) < 2 ^ 63"
  shows "(\<forall>x\<in>set X. \<forall>y\<in>set X \<union> set Y. evaluate_kernel self x y \<le> 0) \<and>
         (\<exists>M. call self X None False = ([], Inr (Matrix M)) \<and> (\<forall>r\<in>set M. \<forall>v\<in>set r. v \<le> 0)) \<and>
         (\<exists>M. call self X (Some Y) False = ([], Inr (Matrix M)) \<and>
              (\<forall>r\<in>set M. \<forall>v\<in>set r. v \<le> 0)) \<and>
         (\<forall>v\<in>set (diag self X). v \<le> 0) \<and>
         (\<forall>x\<in>set Xi. \<forall>y\<in>set Xi \<union> set Yi. evaluate_kernel_int64 self x y \<le> 0) \<and>
         (\<exists>M. call_int64 self Xi None False = ([], Inr (Matrix M)) \<and>
              (\<forall>r\<in>set M. \<forall>v\<in>set r. v \<le> 0)) \<and>
         (\<exists>M. call_int64 self Xi (Some Yi) False = ([], Inr (Matrix M)) \<and>
              (\<forall>r\<in>set M. \<forall>v\<in>set r. v \<le> 0)) \<and>
         (\<forall>v\<in>set (diag_int64 self Xi). v \<le> 0)"
proof -
  have f: "evaluate_kernel self x y \<le> 0" if "x \<in> set X" and "y \<in> set X \<union> set Y" for x y
    using that assms(3) by (intro evaluate_kernel_nonpos) auto
  have i: "evaluate_kernel_int64 self x y \<le> 0" if "x \<in> set Xi" and "y \<in> set Xi \<union> set Yi" for x y
    using that assms(5,6) by (intro evaluate_kernel_int64_nonpos) auto
  have fm: "\<forall>r\<in>set (pairwise_kernels X Z (evaluate_kernel self)). \<forall>v\<in>set r. v \<le> 0"
    if "set Z \<subseteq> set X \<union> set Y" for Z
    using that f by (auto simp: pairwise_kernels_def)
  have im: "\<forall>r\<in>set (pairwise_kernels Xi Z (evaluate_kernel_int64 self)). \<forall>v\<in>set r. v \<le> 0"
    if "set Z \<subseteq> set Xi \<union> set Yi" for Z
    using that i by (auto simp: pairwise_kernels_def)
  have fd: "\<forall>v\<in>set (diag self X). v \<le> 0"
    using f by (auto simp: diag_eq_map)
  have id: "\<forall>v\<in>set (diag_int64 self Xi). v \<le> 0"
    using i by (auto simp: diag_int64_eq_map)
  have "\<forall>x\<in>set X. \<forall>y\<in>set X \<union> set Y. evaluate_kernel self x y \<le> 0"
    using f by blast
  moreover have "\<forall>x\<in>set Xi. \<forall>y\<in>set Xi \<union> set Yi. evaluate_kernel_int64 self x y \<le> 0"
    using i by blast
  ultimately show ?thesis
    using fm [of X] fm [of Y] im [of Xi] im [of Yi] fd id
    by (simp add: call_def call_int64_def)
qed

theorem nonpositive_kernel_without_overflow_witness:
  "0 < sigma \<lparr>sigma = 1\<rparr> \<and> 8 * sigma \<lparr>sigma = 1\<rparr> \<le> float64_max \<and>
   list_all (\<lambda>v. v \<le> 0)
     (map (\<lambda>y. evaluate_kernel \<lparr>sigma = 1\<rparr> [(1, 2), (3, 1)] y) [[(0, 1)], [(1, 2), (3, 1)], [(4, 0), (5, 2)]]) \<and>
   (\<exists>M. call \<lparr>sigma = 1\<rparr> [[(0, 1)], [(1, 2), (3, 1)]] None False = ([], Inr (Matrix M)) \<and>
        list_all (list_all (\<lambda>v. v \<le> 0)) M) \<and>
   (\<exists>M. call \<lparr>sigma = 1\<rparr> [[(0, 1)], [(1, 2), (3, 1)]] (Some [[(4, 0), (5, 2)]]) False
          = ([], Inr (Matrix M)) \<and>
        list_all (list_all (\<lambda>v. v \<le> 0)) M) \<and>
   list_all (\<lambda>v. v \<le> 0) (diag \<lparr>sigma = 1\<rparr> [[(0, 1)], [(1, 2), (3, 1)]]) \<and>
   list_all (\<lambda>v. v \<le> 0)
     (map (\<lambda>y. evaluate_kernel_int64 \<lparr>sigma = 1\<rparr> [(0, 3000000000)] y)
        [[(0, 3000000000)], [(7, 2), (9, 0)], [(2, 5)]]) \<and>
   (\<exists>M. call_int64 \<lparr>sigma = 1\<rparr> [[(0, 3000000000)], [(7, 2), (9, 0)]] None False
          = ([], Inr (Matrix M)) \<and>
        list_all (list_all (\<lambda>v. v \<le> 0)) M) \<and>
   (\<exists>M. call_int64 \<lparr>sigma = 1\<rparr> [[(0, 3000000000)], [(7, 2), (9, 0)]] (Some [[(2, 5)]]) False
          = ([], Inr (Matrix M)) \<and>
        list_all (list_all (\<lambda>v. v \<le> 0)) M) \<and>
   list_all (\<lambda>v. v \<le> 0) (diag_int64 \<lparr>sigma = 1\<rparr> [[(0, 3000000000)], [(7, 2), (9, 0)]])"
proof -
  let ?X = "[[(0::real, 1::real)], [(1, 2), (3, 1)]]"
  let ?Y = "[[(4::real, 0::real), (5, 2)]]"
  let ?Xi = "[[(0::int64, 3000000000::int64)], [(7, 2), (9, 0)]]"
  let ?Yi = "[[(2::int64, 5::int64)]]"
  have s: "0 < sigma \<lparr>sigma = 1\<rparr>"
    by simp
  have s8: "8 * sigma \<lparr>sigma = 1\<rparr> \<le> float64_max"
    by (simp add: float64_max_def)
  have n: "\<forall>x\<in>set ?X \<union> set ?Y. \<forall>p\<in>set x. 0 \<le> snd p"
    by simp
  have b: "\<forall>x\<in>set ?X. \<forall>y\<in>set ?X \<union> set ?Y. \<forall>p\<in>set x. \<forall>q\<in>set y.
             snd p * snd q \<le> float64_max"
    by (simp add: float64_max_def)
  have ni: "\<forall>x\<in>set ?Xi \<union> set ?Yi. \<forall>p\<in>set x. 0 \<le> sint (snd p)"
    by simp
  have bi: "\<forall>x\<in>set ?Xi. \<forall>y\<in>set ?Xi \<union> set ?Yi. \<forall>p\<in>set x. \<forall>q\<in>set y.
             sint (snd p) * sint (snd q) < 2 ^ 63"
    by simp
  show ?thesis
    unfolding list_all_iff
    using s s8 nonpositive_kernel_without_overflow [OF s s8 n b ni bi] by simp
qed

subsection \<open>The derivative in \<open>sigma\<close>\<close>

text \<open>
  The derivative of \<open>evaluate_kernel\<close> in \<open>sigma\<close>, at every \<open>sigma \<noteq> 0\<close>, is
  half of what \<open>evaluate_gradient\<close> returns: the derivative of
  \<open>exp (- d / (8 * sigma))\<close> is \<open>exp (- d / (8 * sigma)) * d / (8 * sigma\<^sup>2)\<close>, and
  the source divides by \<open>4 * sigma\<^sup>2\<close>.
\<close>

lemma sum_list_has_real_derivative:
  assumes "\<And>p. p \<in> set xs \<Longrightarrow> ((\<lambda>t. f p t) has_real_derivative f' p) (at s)"
  shows "((\<lambda>t. \<Sum>p\<leftarrow>xs. f p t) has_real_derivative (\<Sum>p\<leftarrow>xs. f' p)) (at s)"
  using assms
proof (induction xs)
  case Nil
  then show ?case by simp
next
  case (Cons a xs)
  then show ?case by (auto intro!: DERIV_add)
qed

lemma peak_pair_has_real_derivative:
  assumes "s \<noteq> 0"
  shows "((\<lambda>t. a * b * exp (- d / (8 * t))) has_real_derivative
           (d * (a * b * exp (- d / (8 * s))) / (8 * s\<^sup>2))) (at s)"
  using assms by (auto intro!: derivative_eq_intros simp: power2_eq_square field_simps)

lemma sum_list_half:
  "(\<Sum>p\<leftarrow>xs. \<Sum>q\<leftarrow>ys. (g p q :: real) / 2) = (\<Sum>p\<leftarrow>xs. \<Sum>q\<leftarrow>ys. g p q) / 2"
proof -
  have inner: "(\<Sum>q\<leftarrow>zs. (h q :: real) / 2) = (\<Sum>q\<leftarrow>zs. h q) / 2" for h and zs :: "'c list"
    by (induction zs) (simp_all add: add_divide_distrib)
  show ?thesis
    by (simp add: inner)
qed

lemma evaluate_kernel_has_real_derivative:
  assumes "s \<noteq> 0"
  shows "((\<lambda>t. evaluate_kernel \<lparr>sigma = t\<rparr> x y) has_real_derivative
           evaluate_gradient \<lparr>sigma = s\<rparr> x y / 2) (at s)"
proof -
  define G where "G = (\<Sum>p\<leftarrow>x. \<Sum>q\<leftarrow>y. (fst p - fst q)\<^sup>2 *
            (snd p * snd q * exp (- (fst p - fst q)\<^sup>2 / (8 * s))) / (4 * s\<^sup>2))"
  have g: "evaluate_gradient \<lparr>sigma = s\<rparr> x y = - G"
    by (simp add: evaluate_gradient_sum_list G_def)
  have half: "(\<Sum>p\<leftarrow>x. \<Sum>q\<leftarrow>y. (fst p - fst q)\<^sup>2 *
            (snd p * snd q * exp (- (fst p - fst q)\<^sup>2 / (8 * s))) / (8 * s\<^sup>2)) = G / 2"
    unfolding G_def by (simp flip: sum_list_half)
  have "((\<lambda>t. \<Sum>p\<leftarrow>x. \<Sum>q\<leftarrow>y. snd p * snd q * exp (- (fst p - fst q)\<^sup>2 / (8 * t)))
          has_real_derivative
        (\<Sum>p\<leftarrow>x. \<Sum>q\<leftarrow>y. (fst p - fst q)\<^sup>2 *
            (snd p * snd q * exp (- (fst p - fst q)\<^sup>2 / (8 * s))) / (8 * s\<^sup>2))) (at s)"
    by (intro sum_list_has_real_derivative peak_pair_has_real_derivative assms)
  then have "((\<lambda>t. \<Sum>p\<leftarrow>x. \<Sum>q\<leftarrow>y. snd p * snd q * exp (- (fst p - fst q)\<^sup>2 / (8 * t)))
          has_real_derivative G / 2) (at s)"
    by (simp only: half)
  then have "((\<lambda>t. - (\<Sum>p\<leftarrow>x. \<Sum>q\<leftarrow>y. snd p * snd q * exp (- (fst p - fst q)\<^sup>2 / (8 * t))))
          has_real_derivative - (G / 2)) (at s)"
    by (rule DERIV_minus)
  then show ?thesis
    by (simp add: evaluate_kernel_sum_list g)
qed

text \<open>
  C2. \<open>evaluate_gradient\<close> should be the derivative of \<open>evaluate_kernel\<close> with respect
  to \<open>sigma\<close>. On \<open>x = [(0, 1)]\<close>, \<open>y = [(1, 1)]\<close> and \<open>sigma = 1\<close> the derivative is
  \<open>- exp (- 1 / 8) / 8\<close>, the source returns \<open>- exp (- 1 / 8) / 4\<close>, twice as much,
  and this is not the derivative.
\<close>

theorem evaluate_gradient_twice_derivative:
  "((\<lambda>t. evaluate_kernel \<lparr>sigma = t\<rparr> [(0, 1)] [(1, 1)]) has_real_derivative
      - exp (- 1 / 8) / 8) (at 1) \<and>
   evaluate_gradient \<lparr>sigma = 1\<rparr> [(0, 1)] [(1, 1)] = - exp (- 1 / 8) / 4 \<and>
   \<not> ((\<lambda>t. evaluate_kernel \<lparr>sigma = t\<rparr> [(0, 1)] [(1, 1)]) has_real_derivative
        evaluate_gradient \<lparr>sigma = 1\<rparr> [(0, 1)] [(1, 1)]) (at 1)"
proof -
  have g: "evaluate_gradient \<lparr>sigma = 1\<rparr> [(0, 1)] [(1, 1)] = - exp (- 1 / 8) / 4"
    by (simp add: evaluate_gradient_sum_list)
  have d: "((\<lambda>t. evaluate_kernel \<lparr>sigma = t\<rparr> [(0, 1)] [(1, 1)]) has_real_derivative
      - exp (- 1 / 8) / 8) (at 1)"
    using evaluate_kernel_has_real_derivative [of 1 "[(0, 1)]" "[(1, 1)]"] by (simp add: g)
  have n: "\<not> ((\<lambda>t. evaluate_kernel \<lparr>sigma = t\<rparr> [(0, 1)] [(1, 1)]) has_real_derivative
        evaluate_gradient \<lparr>sigma = 1\<rparr> [(0, 1)] [(1, 1)]) (at 1)"
  proof
    assume "((\<lambda>t. evaluate_kernel \<lparr>sigma = t\<rparr> [(0, 1)] [(1, 1)]) has_real_derivative
        evaluate_gradient \<lparr>sigma = 1\<rparr> [(0, 1)] [(1, 1)]) (at 1)"
    then have "- exp (- 1 / 8) / 8 = evaluate_gradient \<lparr>sigma = 1\<rparr> [(0, 1)] [(1, 1)]"
      by (rule DERIV_unique [OF d])
    then show False
      by (simp add: g)
  qed
  from d g n show ?thesis by blast
qed

end
